theory Spec2Isabelle
  imports Complex_Main
begin

section \<open>The restricted expression evaluator of \<^verbatim>\<open>calsi.py\<close>\<close>

text \<open>
  The development embeds class \<^verbatim>\<open>SafeEval\<close> and the method
  \<^verbatim>\<open>ScientificCalculator.evaluate\<close> of \<^verbatim>\<open>src/calsi.py\<close>.

  Conventions of the embedding.
  \<^item> A Python exception is a value of type \<open>error\<close>; a computation that may raise has a
    result of type \<open>error + 'a\<close>, with \<open>Inl\<close> for the exception.
  \<^item> A Python \<^verbatim>\<open>int\<close> is an \<open>int\<close>. A Python \<^verbatim>\<open>float\<close> is idealised as the
    \<open>real\<close> number it denotes, and float arithmetic as exact: the rounding of IEEE
    doubles, their infinities and NaN are outside the model, and a float result beyond the
    range of doubles that Python returns as \<^verbatim>\<open>inf\<close> is kept as the real number. The
    exceptions of the arithmetic are inside the model, \<^verbatim>\<open>OverflowError\<close> included: the
    conversion of an integer that no double holds, an integer quotient, a power or an
    exponential beyond the range of doubles raise it. The limits of the interpreter
    (recursion depth, length of integer literals) are outside the model.
  \<^item> The nodes of Python's \<^verbatim>\<open>ast\<close> module are a datatype. The module belongs to the
    Python standard library, not to the repository; its node classes are declared here as
    far as \<^verbatim>\<open>_eval\<close> distinguishes them.
\<close>

subsection \<open>Values and exceptions\<close>

text \<open>The six functions imported from \<^verbatim>\<open>math\<close> that the whitelist binds.\<close>

datatype builtin = Math_sin | Math_cos | Math_tan | Math_log | Math_sqrt | Math_exp

text \<open>
  The values an evaluation can produce: numbers of the three numeric types of Python, and
  the function objects that the whitelist stores as first-class values.
\<close>

datatype pyval = PInt int | PFloat real | PComplex complex | PFunc builtin

datatype error =
    SyntaxError
  | ValueError string
  | KeyError
  | AttributeError
  | TypeError
  | IndexError
  | ZeroDivisionError
  | OverflowError

type_synonym 'a result = "error + 'a"

definition is_number :: "pyval \<Rightarrow> bool" where
  "is_number v = (case v of PFunc _ \<Rightarrow> False | _ \<Rightarrow> True)"

text \<open>
  The real number that an integer or a float denotes. This is no conversion and never
  fails on an integer, however large.
\<close>

fun real_value :: "pyval \<Rightarrow> real option" where
  "real_value (PInt i) = Some (of_int i)"
| "real_value (PFloat x) = Some x"
| "real_value (PComplex _) = None"
| "real_value (PFunc _) = None"

text \<open>
  The real numbers beyond the range of doubles: rounded to the nearest double, ties to
  even, they lie beyond the largest one, \<^verbatim>\<open>2**1024 - 2**971\<close>.
\<close>

definition overflows :: "real \<Rightarrow> bool" where
  "overflows x = (2 ^ 1024 - 2 ^ 970 \<le> \<bar>x\<bar>)"

text \<open>
  The conversion of an integer to a double raises \<^verbatim>\<open>OverflowError\<close> (``int too large
  to convert to float'') beyond that range.
\<close>

definition PyLong_AsDouble :: "int \<Rightarrow> real result" where
  "PyLong_AsDouble i = (if overflows (of_int i) then Inl OverflowError else Inr (of_int i))"

text \<open>
  The conversion to a double that the functions of \<^verbatim>\<open>math\<close> and the float arithmetic
  apply to an operand: integers and floats only.
\<close>

fun PyFloat_AsDouble :: "pyval \<Rightarrow> real result" where
  "PyFloat_AsDouble (PInt i) = PyLong_AsDouble i"
| "PyFloat_AsDouble (PFloat x) = Inr x"
| "PyFloat_AsDouble (PComplex _) = Inl TypeError"
| "PyFloat_AsDouble (PFunc _) = Inl TypeError"

text \<open>The conversion to a complex number that the complex arithmetic applies.\<close>

fun to_complex :: "pyval \<Rightarrow> complex result" where
  "to_complex (PInt i) =
     (case PyLong_AsDouble i of Inl err \<Rightarrow> Inl err | Inr x \<Rightarrow> Inr (of_real x))"
| "to_complex (PFloat x) = Inr (of_real x)"
| "to_complex (PComplex z) = Inr z"
| "to_complex (PFunc _) = Inl TypeError"

text \<open>A float result that raises \<^verbatim>\<open>OverflowError\<close> when it leaves the range of doubles.\<close>

definition checked :: "real \<Rightarrow> pyval result" where
  "checked r = (if overflows r then Inl OverflowError else Inr (PFloat r))"

fun is_complex :: "pyval \<Rightarrow> bool" where
  "is_complex (PComplex _) = True"
| "is_complex _ = False"

text \<open>
  Binary arithmetic dispatches on the operand types: two integers stay integers, a
  function object is no operand at all (\<^verbatim>\<open>TypeError\<close>), anything with a complex number
  is computed in complex numbers, and an integer or float with a float in floats. The
  operands are converted from left to right, and a conversion that fails raises before
  the operation looks at the values.
\<close>

definition arith2 ::
  "(int \<Rightarrow> int \<Rightarrow> pyval result) \<Rightarrow> (real \<Rightarrow> real \<Rightarrow> pyval result) \<Rightarrow>
   (complex \<Rightarrow> complex \<Rightarrow> pyval result) \<Rightarrow> pyval \<Rightarrow> pyval \<Rightarrow> pyval result" where
  "arith2 fi ff fc a b =
     (case (a, b) of
        (PInt x, PInt y) \<Rightarrow> fi x y
      | _ \<Rightarrow>
        if \<not> is_number a \<or> \<not> is_number b then Inl TypeError
        else if is_complex a \<or> is_complex b then
          (case to_complex a of
             Inl err \<Rightarrow> Inl err
           | Inr x \<Rightarrow> (case to_complex b of Inl err \<Rightarrow> Inl err | Inr y \<Rightarrow> fc x y))
        else
          (case PyFloat_AsDouble a of
             Inl err \<Rightarrow> Inl err
           | Inr x \<Rightarrow> (case PyFloat_AsDouble b of Inl err \<Rightarrow> Inl err | Inr y \<Rightarrow> ff x y)))"

definition operator_add :: "pyval \<Rightarrow> pyval \<Rightarrow> pyval result" where
  "operator_add =
     arith2 (\<lambda>x y. Inr (PInt (x + y))) (\<lambda>x y. Inr (PFloat (x + y)))
       (\<lambda>x y. Inr (PComplex (x + y)))"

definition operator_sub :: "pyval \<Rightarrow> pyval \<Rightarrow> pyval result" where
  "operator_sub =
     arith2 (\<lambda>x y. Inr (PInt (x - y))) (\<lambda>x y. Inr (PFloat (x - y)))
       (\<lambda>x y. Inr (PComplex (x - y)))"

definition operator_mul :: "pyval \<Rightarrow> pyval \<Rightarrow> pyval result" where
  "operator_mul =
     arith2 (\<lambda>x y. Inr (PInt (x * y))) (\<lambda>x y. Inr (PFloat (x * y)))
       (\<lambda>x y. Inr (PComplex (x * y)))"

text \<open>
  True division: a zero divisor raises; the quotient of two integers is a float, computed
  from the integers themselves, and raises \<^verbatim>\<open>OverflowError\<close> when no double holds it.
\<close>

definition operator_truediv :: "pyval \<Rightarrow> pyval \<Rightarrow> pyval result" where
  "operator_truediv =
     arith2
       (\<lambda>x y. if y = 0 then Inl ZeroDivisionError else checked (of_int x / of_int y))
       (\<lambda>x y. if y = 0 then Inl ZeroDivisionError else Inr (PFloat (x / y)))
       (\<lambda>x y. if y = 0 then Inl ZeroDivisionError else Inr (PComplex (x / y)))"

text \<open>
  Complex power in polar form, as the interpreter computes it: a zero exponent gives one,
  a zero base with an exponent that is negative or not real raises, and so does a result
  with a part beyond the range of doubles.
\<close>

definition complex_polar_pow :: "complex \<Rightarrow> complex \<Rightarrow> complex" where
  "complex_polar_pow a b =
     rcis (exp (Re b * ln (cmod a) - Im b * Arg a)) (Im b * ln (cmod a) + Re b * Arg a)"

definition complex_pow :: "complex \<Rightarrow> complex \<Rightarrow> pyval result" where
  "complex_pow a b =
     (if b = 0 then Inr (PComplex 1)
      else if a = 0 then
        (if Im b \<noteq> 0 \<or> Re b < 0 then Inl ZeroDivisionError else Inr (PComplex 0))
      else if overflows (Re (complex_polar_pow a b)) \<or> overflows (Im (complex_polar_pow a b))
        then Inl OverflowError
      else Inr (PComplex (complex_polar_pow a b)))"

text \<open>
  Float power: a negative base with an exponent that is no integer leaves the reals and
  is handed to the complex power; a result beyond the range of doubles raises.
\<close>

definition float_pow :: "real \<Rightarrow> real \<Rightarrow> pyval result" where
  "float_pow x y =
     (if y = 0 then Inr (PFloat 1)
      else if x = 0 then (if y < 0 then Inl ZeroDivisionError else Inr (PFloat 0))
      else if y = of_int \<lfloor>y\<rfloor> then checked (x powi \<lfloor>y\<rfloor>)
      else if x < 0 then complex_pow (of_real x) (of_real y)
      else checked (x powr y))"

text \<open>
  Integer power stays an integer for an exponent that is not negative; for a negative
  exponent both integers are converted and the power is the float power.
\<close>

definition operator_pow :: "pyval \<Rightarrow> pyval \<Rightarrow> pyval result" where
  "operator_pow =
     arith2
       (\<lambda>x y. if 0 \<le> y then Inr (PInt (x ^ nat y))
              else (case PyLong_AsDouble x of
                      Inl err \<Rightarrow> Inl err
                    | Inr x' \<Rightarrow>
                      (case PyLong_AsDouble y of
                         Inl err \<Rightarrow> Inl err
                       | Inr y' \<Rightarrow> float_pow x' y')))
       float_pow complex_pow"

fun operator_neg :: "pyval \<Rightarrow> pyval result" where
  "operator_neg (PInt i) = Inr (PInt (- i))"
| "operator_neg (PFloat x) = Inr (PFloat (- x))"
| "operator_neg (PComplex z) = Inr (PComplex (- z))"
| "operator_neg (PFunc _) = Inl TypeError"

subsection \<open>The functions of \<^verbatim>\<open>math\<close>\<close>

definition math_domain_error :: error where
  "math_domain_error = ValueError ''math domain error''"

definition radians :: "pyval \<Rightarrow> pyval result" where
  "radians v = (case PyFloat_AsDouble v of Inl err \<Rightarrow> Inl err
                | Inr x \<Rightarrow> Inr (PFloat (x * (pi / 180))))"

text \<open>
  The logarithm of one argument, with its domain check. \<^verbatim>\<open>math.log\<close> takes an integer
  of any size and does not convert it to a double first.
\<close>

definition loghelper :: "pyval \<Rightarrow> real result" where
  "loghelper v = (case real_value v of None \<Rightarrow> Inl TypeError
                  | Some x \<Rightarrow> if x \<le> 0 then Inl math_domain_error else Inr (ln x))"

text \<open>
  A call of a \<^verbatim>\<open>math\<close> function on a list of positional arguments. Every function
  takes one argument, except \<^verbatim>\<open>log\<close>, which also takes a base as a second one; the
  count is tested before the arguments are converted. \<^verbatim>\<open>exp\<close> raises
  \<^verbatim>\<open>OverflowError\<close> (``math range error'') for a result beyond the range of doubles.
\<close>

fun call_builtin :: "builtin \<Rightarrow> pyval list \<Rightarrow> pyval result" where
  "call_builtin Math_sin [v] =
     (case PyFloat_AsDouble v of Inl err \<Rightarrow> Inl err | Inr x \<Rightarrow> Inr (PFloat (sin x)))"
| "call_builtin Math_cos [v] =
     (case PyFloat_AsDouble v of Inl err \<Rightarrow> Inl err | Inr x \<Rightarrow> Inr (PFloat (cos x)))"
| "call_builtin Math_tan [v] =
     (case PyFloat_AsDouble v of Inl err \<Rightarrow> Inl err | Inr x \<Rightarrow> Inr (PFloat (tan x)))"
| "call_builtin Math_sqrt [v] =
     (case PyFloat_AsDouble v of Inl err \<Rightarrow> Inl err
      | Inr x \<Rightarrow> if x < 0 then Inl math_domain_error else Inr (PFloat (sqrt x)))"
| "call_builtin Math_exp [v] =
     (case PyFloat_AsDouble v of Inl err \<Rightarrow> Inl err | Inr x \<Rightarrow> checked (exp x))"
| "call_builtin Math_log [v] =
     (case loghelper v of Inl err \<Rightarrow> Inl err | Inr num \<Rightarrow> Inr (PFloat num))"
| "call_builtin Math_log [v, base] =
     (case loghelper v of Inl err \<Rightarrow> Inl err
      | Inr num \<Rightarrow>
        (case loghelper base of Inl err \<Rightarrow> Inl err
         | Inr den \<Rightarrow> if den = 0 then Inl ZeroDivisionError else Inr (PFloat (num / den))))"
| "call_builtin _ _ = Inl TypeError"

text \<open>Calling a value: only function objects are callable.\<close>

fun py_call :: "pyval \<Rightarrow> pyval list \<Rightarrow> pyval result" where
  "py_call (PFunc f) args = call_builtin f args"
| "py_call _ args = Inl TypeError"

subsection \<open>Syntax trees\<close>

text \<open>
  The operator classes of \<^verbatim>\<open>ast\<close>. Binary and unary operator classes are keys of the
  one dictionary \<^verbatim>\<open>allowed_ops\<close>, so they form one type here.
\<close>

datatype op_type =
    ast_Add | ast_Sub | ast_Mult | ast_Div | ast_Pow | ast_FloorDiv | ast_Mod
  | ast_MatMult | ast_LShift | ast_RShift | ast_BitOr | ast_BitXor | ast_BitAnd
  | ast_USub | ast_UAdd | ast_Not | ast_Invert

text \<open>Constants that are no numbers: \<^verbatim>\<open>ast.Num\<close> does not match them.\<close>

datatype other_constant = CStr string | CBool bool | CNone | CEllipsis

text \<open>
  The node classes. \<open>Num\<close> holds the number of a numeric literal (\<^verbatim>\<open>node.n\<close>).
  A \<open>Call\<close> holds the called expression, the positional arguments and the keyword
  arguments (name, or \<open>None\<close> for \<^verbatim>\<open>**x\<close>, and value). \<open>OtherNode\<close> stands for
  every node class that \<^verbatim>\<open>_eval\<close> does not name (comparisons, subscripts, lambdas and
  so on), with its class name and its children.
\<close>

datatype node =
    BinOp node op_type node
  | UnaryOp op_type node
  | Num pyval
  | Call node "node list" "(string option \<times> node) list"
  | Name string
  | Attribute node string
  | Constant other_constant
  | Tuple "node list"
  | Starred node
  | OtherNode string "node list"

subsection \<open>The whitelists\<close>

definition allowed_funcs :: "string \<rightharpoonup> pyval" where
  "allowed_funcs = map_of
     [(''sin'', PFunc Math_sin), (''cos'', PFunc Math_cos), (''tan'', PFunc Math_tan),
      (''log'', PFunc Math_log), (''sqrt'', PFunc Math_sqrt), (''exp'', PFunc Math_exp),
      (''pi'', PFloat pi), (''e'', PFloat (exp 1))]"

text \<open>The callables of module \<^verbatim>\<open>operator\<close> that \<^verbatim>\<open>allowed_ops\<close> stores.\<close>

datatype op_func = Op_add | Op_sub | Op_mul | Op_truediv | Op_pow | Op_neg

definition allowed_ops :: "op_type \<rightharpoonup> op_func" where
  "allowed_ops = map_of
     [(ast_Add, Op_add), (ast_Sub, Op_sub), (ast_Mult, Op_mul), (ast_Div, Op_truediv),
      (ast_Pow, Op_pow), (ast_USub, Op_neg)]"

text \<open>Applying such a callable to the arguments it is given.\<close>

fun apply_op :: "op_func \<Rightarrow> pyval list \<Rightarrow> pyval result" where
  "apply_op Op_add [a, b] = operator_add a b"
| "apply_op Op_sub [a, b] = operator_sub a b"
| "apply_op Op_mul [a, b] = operator_mul a b"
| "apply_op Op_truediv [a, b] = operator_truediv a b"
| "apply_op Op_pow [a, b] = operator_pow a b"
| "apply_op Op_neg [a] = operator_neg a"
| "apply_op _ _ = Inl TypeError"

subsection \<open>\<^verbatim>\<open>SafeEval._eval\<close>\<close>

text \<open>
  The list comprehension \<^verbatim>\<open>[self._eval(arg) for arg in node.args]\<close> evaluates the
  arguments from left to right and stops at the first exception.
\<close>

fun comprehension :: "'a result list \<Rightarrow> 'a list result" where
  "comprehension [] = Inr []"
| "comprehension (Inl err # rs) = Inl err"
| "comprehension (Inr v # rs) =
     (case comprehension rs of Inl err \<Rightarrow> Inl err | Inr vs \<Rightarrow> Inr (v # vs))"

text \<open>
  Lines 37 and 38: in degree mode the first argument of a trigonometric call is replaced
  by its value in radians; \<^verbatim>\<open>args[0]\<close> of an empty list raises \<^verbatim>\<open>IndexError\<close>.
\<close>

definition degree_rule :: "bool \<Rightarrow> string \<Rightarrow> pyval list \<Rightarrow> pyval list result" where
  "degree_rule use_degrees func_name args =
     (if func_name \<in> set [''sin'', ''cos'', ''tan''] \<and> use_degrees then
        (case args of
           [] \<Rightarrow> Inl IndexError
         | a # rest \<Rightarrow> (case radians a of Inl err \<Rightarrow> Inl err | Inr r \<Rightarrow> Inr (r # rest)))
      else Inr args)"

text \<open>
  The evaluator, branch by branch in the order of the source. The first parameter is the
  field \<^verbatim>\<open>self.use_degrees\<close>, which \<^verbatim>\<open>_eval\<close> reads and never writes. In a
  \<open>BinOp\<close> the operator is looked up before the operands are evaluated, the left operand
  before the right one.
\<close>

fun SafeEval_eval :: "bool \<Rightarrow> node \<Rightarrow> pyval result" where
  "SafeEval_eval use_degrees (BinOp left op right) =
     (case allowed_ops op of
        None \<Rightarrow> Inl KeyError
      | Some f \<Rightarrow>
        (case SafeEval_eval use_degrees left of
           Inl err \<Rightarrow> Inl err
         | Inr a \<Rightarrow>
           (case SafeEval_eval use_degrees right of
              Inl err \<Rightarrow> Inl err
            | Inr b \<Rightarrow> apply_op f [a, b])))"
| "SafeEval_eval use_degrees (UnaryOp op operand) =
     (case allowed_ops op of
        None \<Rightarrow> Inl KeyError
      | Some f \<Rightarrow>
        (case SafeEval_eval use_degrees operand of
           Inl err \<Rightarrow> Inl err
         | Inr a \<Rightarrow> apply_op f [a]))"
| "SafeEval_eval use_degrees (Num n) = Inr n"
| "SafeEval_eval use_degrees (Call func args keywords) =
     (case func of
        Name func_name \<Rightarrow>
          (case allowed_funcs func_name of
             None \<Rightarrow> Inl (ValueError ''Invalid function'')
           | Some f \<Rightarrow>
             (case comprehension (map (SafeEval_eval use_degrees) args) of
                Inl err \<Rightarrow> Inl err
              | Inr vs \<Rightarrow>
                (case degree_rule use_degrees func_name vs of
                   Inl err \<Rightarrow> Inl err
                 | Inr vs' \<Rightarrow> py_call f vs')))
      | _ \<Rightarrow> Inl AttributeError)"
| "SafeEval_eval use_degrees (Name ident) =
     (case allowed_funcs ident of
        Some v \<Rightarrow> Inr v
      | None \<Rightarrow> Inl (ValueError ''Invalid variable''))"
| "SafeEval_eval use_degrees _ = Inl (ValueError ''Invalid expression'')"

subsection \<open>Names that an expression references\<close>

text \<open>
  Every \<open>Name\<close> node of a tree, and the \<open>Name\<close> nodes outside the keyword arguments
  of calls. \<^verbatim>\<open>_eval\<close> reads \<^verbatim>\<open>node.args\<close> of a call and never \<^verbatim>\<open>node.keywords\<close>.
\<close>

fun all_names :: "node \<Rightarrow> string list" where
  "all_names (BinOp left op right) = all_names left @ all_names right"
| "all_names (UnaryOp op operand) = all_names operand"
| "all_names (Num n) = []"
| "all_names (Call func args keywords) =
     all_names func @ concat (map all_names args)
       @ concat (map (\<lambda>kw. all_names (snd kw)) keywords)"
| "all_names (Name ident) = [ident]"
| "all_names (Attribute v attr) = all_names v"
| "all_names (Constant c) = []"
| "all_names (Tuple elts) = concat (map all_names elts)"
| "all_names (Starred v) = all_names v"
| "all_names (OtherNode cls children) = concat (map all_names children)"

fun positional_names :: "node \<Rightarrow> string list" where
  "positional_names (BinOp left op right) = positional_names left @ positional_names right"
| "positional_names (UnaryOp op operand) = positional_names operand"
| "positional_names (Num n) = []"
| "positional_names (Call func args keywords) =
     positional_names func @ concat (map positional_names args)"
| "positional_names (Name ident) = [ident]"
| "positional_names (Attribute v attr) = positional_names v"
| "positional_names (Constant c) = []"
| "positional_names (Tuple elts) = concat (map positional_names elts)"
| "positional_names (Starred v) = positional_names v"
| "positional_names (OtherNode cls children) = concat (map positional_names children)"

section \<open>Properties of the evaluator\<close>

subsection \<open>The whitelists, entry by entry\<close>

lemma allowed_funcs_simps:
  "allowed_funcs ''sin'' = Some (PFunc Math_sin)"
  "allowed_funcs ''cos'' = Some (PFunc Math_cos)"
  "allowed_funcs ''tan'' = Some (PFunc Math_tan)"
  "allowed_funcs ''log'' = Some (PFunc Math_log)"
  "allowed_funcs ''sqrt'' = Some (PFunc Math_sqrt)"
  "allowed_funcs ''exp'' = Some (PFunc Math_exp)"
  "allowed_funcs ''pi'' = Some (PFloat pi)"
  "allowed_funcs ''e'' = Some (PFloat (exp 1))"
  by (simp_all add: allowed_funcs_def)

lemma allowed_ops_simps:
  "allowed_ops ast_Add = Some Op_add"
  "allowed_ops ast_Sub = Some Op_sub"
  "allowed_ops ast_Mult = Some Op_mul"
  "allowed_ops ast_Div = Some Op_truediv"
  "allowed_ops ast_Pow = Some Op_pow"
  "allowed_ops ast_USub = Some Op_neg"
  "allowed_ops ast_UAdd = None"
  "allowed_ops ast_FloorDiv = None"
  by (simp_all add: allowed_ops_def)

subsection \<open>Calls and their arguments\<close>

lemma call_builtin_arity:
  "f \<noteq> Math_log \<Longrightarrow> length vs \<noteq> 1 \<Longrightarrow> call_builtin f vs = Inl TypeError"
  by (induction f vs rule: call_builtin.induct) simp_all

lemma call_log_arity:
  "length vs \<noteq> 1 \<Longrightarrow> length vs \<noteq> 2 \<Longrightarrow> call_builtin f vs = Inl TypeError"
  by (induction f vs rule: call_builtin.induct) simp_all

lemma comprehension_length:
  "comprehension rs = Inr vs \<Longrightarrow> length vs = length rs"
  by (induction rs arbitrary: vs rule: comprehension.induct) (auto split: sum.splits)

lemma comprehension_fails:
  "r \<in> set rs \<Longrightarrow> r = Inl err \<Longrightarrow> \<exists>err'. comprehension rs = Inl err'"
  by (induction rs rule: comprehension.induct) (auto split: sum.splits)

lemma comprehension_map_fails:
  "x \<in> set xs \<Longrightarrow> f x = Inl err \<Longrightarrow> \<exists>err'. comprehension (map f xs) = Inl err'"
proof (induction xs)
  case Nil
  then show ?case by simp
next
  case (Cons a xs)
  then show ?case by (cases "f a") (auto split: sum.splits)
qed

lemma degree_rule_length:
  "degree_rule d name vs = Inr vs' \<Longrightarrow> length vs' = length vs"
  by (auto simp add: degree_rule_def split: if_splits list.splits sum.splits)

lemma dom_allowed_funcs:
  "dom allowed_funcs = {''sin'', ''cos'', ''tan'', ''log'', ''sqrt'', ''exp'', ''pi'', ''e''}"
  unfolding allowed_funcs_def by (simp add: dom_map_of_conv_image_fst insert_commute)

subsection \<open>The range of doubles\<close>

lemma not_overflows: "\<bar>x\<bar> < 2 ^ 1023 \<Longrightarrow> \<not> overflows x"
  by (simp add: overflows_def)

lemma PyLong_AsDouble_small:
  "\<bar>i\<bar> < 2 ^ 1023 \<Longrightarrow> PyLong_AsDouble i = Inr (of_int i)"
proof -
  assume "\<bar>i\<bar> < 2 ^ 1023"
  then have "\<bar>real_of_int i\<bar> < 2 ^ 1023"
    by (metis of_int_abs of_int_less_iff of_int_numeral of_int_power)
  then show ?thesis by (simp add: PyLong_AsDouble_def not_overflows)
qed

lemma PyLong_AsDouble_zero: "PyLong_AsDouble 0 = Inr 0"
  by (simp add: PyLong_AsDouble_def overflows_def)

lemma overflows_zero: "\<not> overflows 0"
  by (simp add: overflows_def)

lemma PyLong_AsDouble_huge:
  "2 ^ 1024 \<le> \<bar>i\<bar> \<Longrightarrow> PyLong_AsDouble i = Inl OverflowError"
proof -
  assume "2 ^ 1024 \<le> \<bar>i\<bar>"
  then have "2 ^ 1024 \<le> \<bar>real_of_int i\<bar>"
    by (metis of_int_abs of_int_le_iff of_int_numeral of_int_power)
  then have "overflows (real_of_int i)" by (simp add: overflows_def)
  then show ?thesis by (simp add: PyLong_AsDouble_def)
qed

lemma PyFloat_AsDouble_real_value:
  "real_value v = Some x \<Longrightarrow>
   PyFloat_AsDouble v = Inl OverflowError \<or> PyFloat_AsDouble v = Inr x"
  by (cases v) (auto simp add: PyLong_AsDouble_def)

subsection \<open>Undefined operations\<close>

lemma truediv_zero:
  "is_number a \<Longrightarrow> b \<in> {PInt 0, PFloat 0, PComplex 0} \<Longrightarrow>
   operator_truediv a b =
     Inl (if b \<noteq> PInt 0 \<and> PyFloat_AsDouble a = Inl OverflowError
          then OverflowError else ZeroDivisionError)"
  by (cases a)
    (auto simp add: operator_truediv_def arith2_def is_number_def PyLong_AsDouble_def
      overflows_zero)

lemma div_zero_raises:
  "SafeEval_eval d l = Inr a \<Longrightarrow> is_number a \<Longrightarrow> SafeEval_eval d r = Inr b \<Longrightarrow>
   b \<in> {PInt 0, PFloat 0, PComplex 0} \<Longrightarrow>
   SafeEval_eval d (BinOp l ast_Div r) =
     Inl (if b \<noteq> PInt 0 \<and> PyFloat_AsDouble a = Inl OverflowError
          then OverflowError else ZeroDivisionError)"
  using truediv_zero [of a b] by (simp add: allowed_ops_simps)

lemma sqrt_negative_raises:
  "SafeEval_eval d arg = Inr v \<Longrightarrow> real_value v = Some x \<Longrightarrow> x < 0 \<Longrightarrow>
   SafeEval_eval d (Call (Name ''sqrt'') [arg] kws) =
     Inl (if PyFloat_AsDouble v = Inl OverflowError then OverflowError else math_domain_error)"
  using PyFloat_AsDouble_real_value [of v x]
  by (auto simp add: allowed_funcs_simps degree_rule_def)

lemma log_nonpositive_raises:
  "SafeEval_eval d arg = Inr v \<Longrightarrow> real_value v = Some x \<Longrightarrow> x \<le> 0 \<Longrightarrow>
   SafeEval_eval d (Call (Name ''log'') [arg] kws) = Inl math_domain_error"
  by (simp add: allowed_funcs_simps degree_rule_def loghelper_def)

lemma one_div_zero:
  "SafeEval_eval d (BinOp (Num (PInt 1)) ast_Div (Num (PInt 0))) = Inl ZeroDivisionError"
  by (simp add: allowed_ops_simps operator_truediv_def arith2_def)

lemma sqrt_minus_one:
  "SafeEval_eval d (Call (Name ''sqrt'') [UnaryOp ast_USub (Num (PInt 1))] [])
     = Inl math_domain_error"
  by (simp add: allowed_funcs_simps allowed_ops_simps degree_rule_def PyLong_AsDouble_small)

text \<open>
  Claim C4, as stated, fails where an integer beyond the range of doubles has to be
  converted before the operation tests its operand: \<^verbatim>\<open>2^1024/0.0\<close> and
  \<^verbatim>\<open>sqrt(-2^1024)\<close> raise \<^verbatim>\<open>OverflowError\<close>, which is neither a division error nor a
  domain error.
\<close>

theorem undefined_operation_overflow_counterexample:
  "SafeEval_eval True (BinOp (Num (PInt (2 ^ 1024))) ast_Div (Num (PFloat 0)))
     = Inl OverflowError
   \<and> SafeEval_eval True (Call (Name ''sqrt'') [UnaryOp ast_USub (Num (PInt (2 ^ 1024)))] [])
     = Inl OverflowError"
  by (simp add: allowed_funcs_simps allowed_ops_simps degree_rule_def operator_truediv_def
      arith2_def is_number_def PyLong_AsDouble_huge)

text \<open>
  Claim C4, amended. A mathematically undefined operation raises and returns no value, in
  either mode. A true division of a number by a zero (integer, float or complex) raises
  \<^verbatim>\<open>ZeroDivisionError\<close>, \<^verbatim>\<open>sqrt\<close> of a negative real number raises the
  \<^verbatim>\<open>ValueError\<close> of \<^verbatim>\<open>math\<close> (``math domain error''), and so does \<^verbatim>\<open>log\<close> of a
  real number that is not positive. The one exception is an integer beyond the range of
  doubles that has to be converted first, as the dividend of a float or complex zero or as
  the argument of \<^verbatim>\<open>sqrt\<close>: then the conversion raises \<^verbatim>\<open>OverflowError\<close>. In
  particular \<^verbatim>\<open>1/0\<close> raises \<^verbatim>\<open>ZeroDivisionError\<close> and \<^verbatim>\<open>sqrt(-1)\<close> the domain error.
\<close>

theorem undefined_operations_raise:
  "(SafeEval_eval d l = Inr a \<and> is_number a \<and> SafeEval_eval d r = Inr b \<and>
      b \<in> {PInt 0, PFloat 0, PComplex 0} \<longrightarrow>
      SafeEval_eval d (BinOp l ast_Div r) =
        Inl (if b \<noteq> PInt 0 \<and> PyFloat_AsDouble a = Inl OverflowError
             then OverflowError else ZeroDivisionError))
   \<and> (SafeEval_eval d arg = Inr v \<and> real_value v = Some x \<and> x < 0 \<longrightarrow>
      SafeEval_eval d (Call (Name ''sqrt'') [arg] kws) =
        Inl (if PyFloat_AsDouble v = Inl OverflowError
             then OverflowError else math_domain_error))
   \<and> (SafeEval_eval d arg = Inr v \<and> real_value v = Some x \<and> x \<le> 0 \<longrightarrow>
      SafeEval_eval d (Call (Name ''log'') [arg] kws) = Inl math_domain_error)
   \<and> SafeEval_eval d (BinOp (Num (PInt 1)) ast_Div (Num (PInt 0))) = Inl ZeroDivisionError
   \<and> SafeEval_eval d (Call (Name ''sqrt'') [UnaryOp ast_USub (Num (PInt 1))] [])
       = Inl math_domain_error"
  using div_zero_raises [of d l a r b] sqrt_negative_raises [of d arg v x kws]
    log_nonpositive_raises [of d arg v x kws] one_div_zero [of d] sqrt_minus_one [of d]
  by blast

theorem undefined_operations_raise_witness:
  "SafeEval_eval True (Num (PFloat 3)) = Inr (PFloat 3) \<and> is_number (PFloat 3) \<and>
   SafeEval_eval True (Num (PFloat 0)) = Inr (PFloat 0) \<and>
   PFloat 0 \<in> {PInt 0, PFloat 0, PComplex 0} \<and>
   SafeEval_eval True (BinOp (Num (PFloat 3)) ast_Div (Num (PFloat 0))) = Inl ZeroDivisionError \<and>
   SafeEval_eval True (Num (PInt (- 4))) = Inr (PInt (- 4)) \<and>
   real_value (PInt (- 4)) = Some (- 4) \<and> (- 4 :: real) < 0 \<and> (- 4 :: real) \<le> 0 \<and>
   SafeEval_eval True (Call (Name ''sqrt'') [Num (PInt (- 4))] []) = Inl math_domain_error \<and>
   SafeEval_eval True (Call (Name ''log'') [Num (PInt (- 4))] []) = Inl math_domain_error"
  using undefined_operations_raise [of True "Num (PFloat 3)" "PFloat 3" "Num (PFloat 0)"
      "PFloat 0" "Num (PInt (- 4))" "PInt (- 4)" "- 4" "[]"]
  by (simp add: is_number_def PyLong_AsDouble_small)

subsection \<open>Bare identifiers\<close>

text \<open>
  Claim C7, as stated, fails: the bare name \<^verbatim>\<open>sin\<close> raises nothing; the evaluation
  returns the function object, which is no number.
\<close>

theorem bare_function_name_counterexample:
  "SafeEval_eval True (Name ''sin'') = Inr (PFunc Math_sin) \<and> \<not> is_number (PFunc Math_sin)"
  by (simp add: allowed_funcs_simps is_number_def)

text \<open>
  Claim C7, amended. A bare identifier of the whitelist evaluates to its whitelist
  binding and raises nothing, in either mode: \<^verbatim>\<open>pi\<close> and \<^verbatim>\<open>e\<close> return their
  numeric values, and each of \<^verbatim>\<open>sin\<close>, \<^verbatim>\<open>cos\<close>, \<^verbatim>\<open>tan\<close>, \<^verbatim>\<open>log\<close>,
  \<^verbatim>\<open>sqrt\<close>, \<^verbatim>\<open>exp\<close> returns its own function object, a value that is not a
  number.
\<close>

theorem bare_identifier_binding:
  "(allowed_funcs name = Some v \<longrightarrow> SafeEval_eval d (Name name) = Inr v)
   \<and> SafeEval_eval d (Name ''sin'') = Inr (PFunc Math_sin)
   \<and> SafeEval_eval d (Name ''cos'') = Inr (PFunc Math_cos)
   \<and> SafeEval_eval d (Name ''tan'') = Inr (PFunc Math_tan)
   \<and> SafeEval_eval d (Name ''log'') = Inr (PFunc Math_log)
   \<and> SafeEval_eval d (Name ''sqrt'') = Inr (PFunc Math_sqrt)
   \<and> SafeEval_eval d (Name ''exp'') = Inr (PFunc Math_exp)
   \<and> SafeEval_eval d (Name ''pi'') = Inr (PFloat pi)
   \<and> SafeEval_eval d (Name ''e'') = Inr (PFloat (exp 1))
   \<and> \<not> is_number (PFunc f)"
  by (simp add: allowed_funcs_simps is_number_def)

theorem bare_identifier_binding_witness:
  "allowed_funcs ''cos'' = Some (PFunc Math_cos)
   \<and> SafeEval_eval False (Name ''cos'') = Inr (PFunc Math_cos)
   \<and> \<not> is_number (PFunc Math_cos)"
  using bare_identifier_binding [of "''cos''" "PFunc Math_cos" False Math_cos]
  by (simp add: allowed_funcs_simps)

subsection \<open>The base of the logarithm\<close>

text \<open>
  Claim C10. The whitelisted name \<^verbatim>\<open>log\<close> is the natural logarithm: a call with one
  argument whose value is a real number \<open>x > 0\<close> returns \<open>ln x\<close>, in either mode, and
  \<^verbatim>\<open>log(e)\<close> is 1.
\<close>

theorem log_is_natural_logarithm:
  "(SafeEval_eval d arg = Inr v \<and> real_value v = Some x \<and> 0 < x \<longrightarrow>
      SafeEval_eval d (Call (Name ''log'') [arg] kws) = Inr (PFloat (ln x)))
   \<and> SafeEval_eval d (Call (Name ''log'') [Name ''e''] []) = Inr (PFloat 1)"
  by (simp add: allowed_funcs_simps degree_rule_def loghelper_def)

theorem log_is_natural_logarithm_witness:
  "SafeEval_eval True (Num (PInt 1)) = Inr (PInt 1) \<and> real_value (PInt 1) = Some 1 \<and>
   (0 :: real) < 1 \<and>
   SafeEval_eval True (Call (Name ''log'') [Num (PInt 1)] []) = Inr (PFloat (ln 1))"
  using log_is_natural_logarithm [of True "Num (PInt 1)" "PInt 1" 1 "[]"] by simp

subsection \<open>Argument counts\<close>

lemma ln_8_2: "ln (8::real) / ln 2 = 3"
proof -
  have "ln (8::real) = ln (2 ^ 3)" by simp
  also have "\<dots> = 3 * ln 2" by (subst ln_realpow) simp_all
  finally show ?thesis by simp
qed

text \<open>
  Claim C6, as stated, fails: \<^verbatim>\<open>log(8,2)\<close> has two arguments and returns 3, the
  logarithm of 8 to the base 2.
\<close>

theorem log_two_arguments_counterexample:
  "SafeEval_eval False (Call (Name ''log'') [Num (PInt 8), Num (PInt 2)] []) = Inr (PFloat 3)"
  by (simp add: allowed_funcs_simps degree_rule_def loghelper_def ln_8_2)

lemma wrong_arity_general:
  assumes "allowed_funcs name = Some (PFunc f)"
    and "f \<noteq> Math_log \<and> length args \<noteq> 1 \<or> length args \<noteq> 1 \<and> length args \<noteq> 2"
  shows "\<exists>err. SafeEval_eval d (Call (Name name) args kws) = Inl err"
proof (cases "comprehension (map (SafeEval_eval d) args)")
  case (Inl err)
  then show ?thesis using assms(1) by simp
next
  case (Inr vs)
  then have len: "length vs = length args" by (auto dest: comprehension_length)
  show ?thesis
  proof (cases "degree_rule d name vs")
    case (Inl err)
    then show ?thesis using assms(1) Inr by simp
  next
    case inr: (Inr vs')
    then have "length vs' = length args" using len by (auto dest: degree_rule_length)
    then have "call_builtin f vs' = Inl TypeError"
      using assms(2) call_builtin_arity call_log_arity by metis
    then show ?thesis using assms(1) Inr inr by simp
  qed
qed

lemma wrong_arity_error:
  assumes "allowed_funcs name = Some (PFunc f)"
    and "f \<noteq> Math_log \<and> length args \<noteq> 1 \<or> length args \<noteq> 1 \<and> length args \<noteq> 2"
    and "comprehension (map (SafeEval_eval d) args) = Inr vs"
  shows "SafeEval_eval d (Call (Name name) args kws) =
     Inl (if d \<and> name \<in> {''sin'', ''cos'', ''tan''}
          then (case vs of [] \<Rightarrow> IndexError
                | v # rest \<Rightarrow> (case radians v of Inl err \<Rightarrow> err | Inr r \<Rightarrow> TypeError))
          else TypeError)"
proof -
  have len: "length vs = length args" using assms(3) by (auto dest: comprehension_length)
  show ?thesis
  proof (cases "degree_rule d name vs")
    case (Inl err)
    then have "err = (if d \<and> name \<in> {''sin'', ''cos'', ''tan''}
          then (case vs of [] \<Rightarrow> IndexError
                | v # rest \<Rightarrow> (case radians v of Inl err \<Rightarrow> err | Inr r \<Rightarrow> TypeError))
          else TypeError)"
      by (auto simp add: degree_rule_def split: if_splits list.splits sum.splits)
    then show ?thesis using assms(1,3) Inl by simp
  next
    case inr: (Inr vs')
    then have l: "length vs' = length args" using len by (auto dest: degree_rule_length)
    then have "call_builtin f vs' = Inl TypeError"
      using assms(2) call_builtin_arity call_log_arity by metis
    moreover have "TypeError = (if d \<and> name \<in> {''sin'', ''cos'', ''tan''}
          then (case vs of [] \<Rightarrow> IndexError
                | v # rest \<Rightarrow> (case radians v of Inl err \<Rightarrow> err | Inr r \<Rightarrow> TypeError))
          else TypeError)"
      using inr by (auto simp add: degree_rule_def split: if_splits list.splits sum.splits)
    ultimately show ?thesis using assms(1,3) inr by simp
  qed
qed

lemma wrong_arity_both:
  assumes "name \<in> {''sin'', ''cos'', ''tan'', ''sqrt'', ''exp''} \<and> length args \<noteq> 1 \<or>
    name = ''log'' \<and> length args \<noteq> 1 \<and> length args \<noteq> 2"
  shows "(\<exists>err. SafeEval_eval d (Call (Name name) args kws) = Inl err) \<and>
   (\<forall>vs. comprehension (map (SafeEval_eval d) args) = Inr vs \<longrightarrow>
      SafeEval_eval d (Call (Name name) args kws) =
        Inl (if d \<and> name \<in> {''sin'', ''cos'', ''tan''}
             then (case vs of [] \<Rightarrow> IndexError
                   | v # rest \<Rightarrow> (case radians v of Inl err \<Rightarrow> err | Inr r \<Rightarrow> TypeError))
             else TypeError))"
proof -
  obtain f where f: "allowed_funcs name = Some (PFunc f)"
    and ar: "f \<noteq> Math_log \<and> length args \<noteq> 1 \<or> length args \<noteq> 1 \<and> length args \<noteq> 2"
    using assms by (auto simp add: allowed_funcs_simps)
  show ?thesis
    using wrong_arity_general [OF f ar] wrong_arity_error [OF f ar] by blast
qed

lemma radians_errors:
  "radians v = Inl err \<Longrightarrow>
   err = TypeError \<and> real_value v = None \<or>
   err = OverflowError \<and> (\<exists>i. v = PInt i \<and> overflows (of_int i))"
  by (cases v) (auto simp add: radians_def PyLong_AsDouble_def split: if_splits)

lemma log_with_base:
  assumes "SafeEval_eval d a = Inr v" and "real_value v = Some x" and "0 < x"
    and "SafeEval_eval d b = Inr w" and "real_value w = Some y" and "0 < y"
  shows "SafeEval_eval d (Call (Name ''log'') [a, b] kws) =
     (if y = 1 then Inl ZeroDivisionError else Inr (PFloat (ln x / ln y)))"
  using assms by (simp add: allowed_funcs_simps degree_rule_def loghelper_def)

text \<open>
  Claim C6, amended. A call of \<^verbatim>\<open>sin\<close>, \<^verbatim>\<open>cos\<close>, \<^verbatim>\<open>tan\<close>, \<^verbatim>\<open>sqrt\<close> or \<^verbatim>\<open>exp\<close>
  with an argument count other than one, and a call of \<^verbatim>\<open>log\<close> with a count other than
  one or two, fails and returns no value. There is no class for malformed calls and no
  test of the count in the evaluator: once the arguments have been evaluated, the
  exception is the \<^verbatim>\<open>TypeError\<close> of the call, unless the degree rule of line 38 raises
  before the call, for a trigonometric function in degree mode: \<^verbatim>\<open>IndexError\<close> without
  arguments, and otherwise what \<^verbatim>\<open>radians\<close> raises on the first argument, if it does
  (\<^verbatim>\<open>TypeError\<close> for a value that is no real number, \<^verbatim>\<open>OverflowError\<close> for an
  integer beyond the range of doubles). A call of \<^verbatim>\<open>log\<close> with two arguments whose
  values are positive real numbers \<open>x\<close> and \<open>y\<close> is the logarithm of \<open>x\<close> to the base
  \<open>y\<close>, \<open>ln x / ln y\<close>, and raises \<^verbatim>\<open>ZeroDivisionError\<close> for the base 1.
\<close>

theorem wrong_arity_fails:
  "((name \<in> {''sin'', ''cos'', ''tan'', ''sqrt'', ''exp''} \<and> length args \<noteq> 1 \<or>
     name = ''log'' \<and> length args \<noteq> 1 \<and> length args \<noteq> 2) \<longrightarrow>
    (\<exists>err. SafeEval_eval d (Call (Name name) args kws) = Inl err) \<and>
    (\<forall>vs. comprehension (map (SafeEval_eval d) args) = Inr vs \<longrightarrow>
       SafeEval_eval d (Call (Name name) args kws) =
         Inl (if d \<and> name \<in> {''sin'', ''cos'', ''tan''}
              then (case vs of [] \<Rightarrow> IndexError
                    | v # rest \<Rightarrow> (case radians v of Inl err \<Rightarrow> err | Inr r \<Rightarrow> TypeError))
              else TypeError)))
   \<and> (radians u = Inl err' \<longrightarrow>
        err' = TypeError \<and> real_value u = None \<or>
        err' = OverflowError \<and> (\<exists>i. u = PInt i \<and> overflows (of_int i)))
   \<and> (SafeEval_eval d a = Inr v \<and> real_value v = Some x \<and> 0 < x \<and>
       SafeEval_eval d b = Inr w \<and> real_value w = Some y \<and> 0 < y \<longrightarrow>
         SafeEval_eval d (Call (Name ''log'') [a, b] kws) =
           (if y = 1 then Inl ZeroDivisionError else Inr (PFloat (ln x / ln y))))"
  using wrong_arity_both [of name args d kws] radians_errors [of u err']
    log_with_base [of d a v x b w y kws]
  by blast

theorem wrong_arity_fails_witness:
  "(''sin'' \<in> {''sin'', ''cos'', ''tan'', ''sqrt'', ''exp''} \<and>
      length [Num (PInt (2 ^ 1024)), Num (PInt 2)] \<noteq> 1) \<and>
   comprehension (map (SafeEval_eval True) [Num (PInt (2 ^ 1024)), Num (PInt 2)])
     = Inr [PInt (2 ^ 1024), PInt 2] \<and>
   SafeEval_eval True (Call (Name ''sin'') [Num (PInt (2 ^ 1024)), Num (PInt 2)] [])
     = Inl OverflowError \<and>
   SafeEval_eval False (Call (Name ''sin'') [Num (PInt (2 ^ 1024)), Num (PInt 2)] [])
     = Inl TypeError \<and>
   radians (PInt (2 ^ 1024)) = Inl OverflowError \<and>
   SafeEval_eval True (Num (PInt 8)) = Inr (PInt 8) \<and> real_value (PInt 8) = Some 8 \<and>
   SafeEval_eval True (Num (PInt 2)) = Inr (PInt 2) \<and> real_value (PInt 2) = Some 2 \<and>
   SafeEval_eval True (Call (Name ''log'') [Num (PInt 8), Num (PInt 2)] [])
     = Inr (PFloat (ln 8 / ln 2))"
  using wrong_arity_fails [of "''sin''" "[Num (PInt (2 ^ 1024)), Num (PInt 2)]" True "[]"
      "PInt (2 ^ 1024)" OverflowError "Num (PInt 8)" "PInt 8" 8 "Num (PInt 2)" "PInt 2" 2]
    wrong_arity_fails [of "''sin''" "[Num (PInt (2 ^ 1024)), Num (PInt 2)]" False "[]"
      "PInt (2 ^ 1024)" OverflowError "Num (PInt 8)" "PInt 8" 8 "Num (PInt 2)" "PInt 2" 2]
  by (simp add: radians_def PyLong_AsDouble_huge)

subsection \<open>Names outside the whitelist\<close>

lemma eval_fails_on_unlisted_name:
  "\<exists>x \<in> set (positional_names n). allowed_funcs x = None \<Longrightarrow> \<exists>err. SafeEval_eval d n = Inl err"
proof (induction n)
  case (BinOp l op r)
  then have "(\<exists>err. SafeEval_eval d l = Inl err) \<or> (\<exists>err. SafeEval_eval d r = Inl err)"
    by auto
  then show ?case
    by (cases "allowed_ops op"; cases "SafeEval_eval d l"; cases "SafeEval_eval d r") auto
next
  case (UnaryOp op e)
  then have "\<exists>err. SafeEval_eval d e = Inl err"
    by auto
  then show ?case
    by (cases "allowed_ops op") auto
next
  case (Call func args kws)
  show ?case
  proof (cases func)
    case (Name f)
    show ?thesis
    proof (cases "allowed_funcs f")
      case None
      then show ?thesis using Name by simp
    next
      case (Some v)
      then obtain a x where a: "a \<in> set args" "x \<in> set (positional_names a)" "allowed_funcs x = None"
        using Call.prems Name by auto
      then obtain err where "SafeEval_eval d a = Inl err" using Call.IH(2) by blast
      then have "\<exists>err'. comprehension (map (SafeEval_eval d) args) = Inl err'"
        using a(1) comprehension_map_fails [of a args "SafeEval_eval d" err] by blast
      then show ?thesis using Name Some by auto
    qed
  qed simp_all
qed simp_all

text \<open>
  Claim C1, as stated, fails twice. \<^verbatim>\<open>os.system('x')\<close> fails with
  \<^verbatim>\<open>AttributeError\<close>, which is none of the three classes named: the called expression
  is an attribute and has no \<^verbatim>\<open>id\<close>. And \<^verbatim>\<open>log(8, base=foo)\<close> references \<^verbatim>\<open>foo\<close>
  and returns a number, since keyword arguments are never looked at.
\<close>

theorem whitelist_counterexample:
  "SafeEval_eval False
     (Call (Attribute (Name ''os'') ''system'') [Constant (CStr ''x'')] []) = Inl AttributeError
   \<and> ''foo'' \<in> set (all_names (Call (Name ''log'') [Num (PInt 8)] [(Some ''base'', Name ''foo'')]))
   \<and> allowed_funcs ''foo'' = None
   \<and> SafeEval_eval False (Call (Name ''log'') [Num (PInt 8)] [(Some ''base'', Name ''foo'')])
       = Inr (PFloat (ln 8))"
  by (simp add: allowed_funcs_simps degree_rule_def loghelper_def) (simp add: allowed_funcs_def)

text \<open>
  Claim C1, amended. The whitelist has the eight names \<^verbatim>\<open>sin\<close>, \<^verbatim>\<open>cos\<close>, \<^verbatim>\<open>tan\<close>,
  \<^verbatim>\<open>log\<close>, \<^verbatim>\<open>sqrt\<close>, \<^verbatim>\<open>exp\<close>, \<^verbatim>\<open>pi\<close>, \<^verbatim>\<open>e\<close>. Every expression that references a
  name outside it anywhere but in a keyword argument of a call fails and returns no value,
  in either mode. A call of such a name fails with \<^verbatim>\<open>ValueError("Invalid function")\<close>
  whatever its arguments are, as \<^verbatim>\<open>__import__('os')\<close> does, and such a name on its own
  with \<^verbatim>\<open>ValueError("Invalid variable")\<close>; other expressions fail with whatever is raised
  first, \<^verbatim>\<open>os.system('x')\<close> with \<^verbatim>\<open>AttributeError\<close>.
\<close>

theorem whitelist_enforcement:
  "dom allowed_funcs = {''sin'', ''cos'', ''tan'', ''log'', ''sqrt'', ''exp'', ''pi'', ''e''}
   \<and> ((\<exists>x \<in> set (positional_names n). x \<notin> dom allowed_funcs) \<longrightarrow>
        (\<exists>err. SafeEval_eval d n = Inl err))
   \<and> (f \<notin> dom allowed_funcs \<longrightarrow>
        SafeEval_eval d (Call (Name f) args kws) = Inl (ValueError ''Invalid function''))
   \<and> (y \<notin> dom allowed_funcs \<longrightarrow>
        SafeEval_eval d (Name y) = Inl (ValueError ''Invalid variable''))
   \<and> SafeEval_eval d (Call (Name ''__import__'') [Constant (CStr ''os'')] [])
        = Inl (ValueError ''Invalid function'')
   \<and> SafeEval_eval d (Call (Attribute (Name ''os'') ''system'') [Constant (CStr ''x'')] [])
        = Inl AttributeError"
proof -
  have "(\<exists>x \<in> set (positional_names n). x \<notin> dom allowed_funcs) \<longrightarrow>
        (\<exists>err. SafeEval_eval d n = Inl err)"
    using eval_fails_on_unlisted_name [of n d] by (auto simp add: domIff)
  moreover have "f \<notin> dom allowed_funcs \<longrightarrow>
        SafeEval_eval d (Call (Name f) args kws) = Inl (ValueError ''Invalid function'')"
    by (simp add: domIff)
  moreover have "y \<notin> dom allowed_funcs \<longrightarrow>
        SafeEval_eval d (Name y) = Inl (ValueError ''Invalid variable'')"
    by (simp add: domIff)
  moreover have "allowed_funcs ''__import__'' = None"
    by (simp add: allowed_funcs_def)
  then have "SafeEval_eval d (Call (Name ''__import__'') [Constant (CStr ''os'')] [])
        = Inl (ValueError ''Invalid function'')"
    by simp
  moreover have
    "SafeEval_eval d (Call (Attribute (Name ''os'') ''system'') [Constant (CStr ''x'')] [])
        = Inl AttributeError"
    by simp
  ultimately show ?thesis using dom_allowed_funcs by blast
qed

theorem whitelist_enforcement_witness:
  "(\<exists>x \<in> set (positional_names (BinOp (Num (PInt 1)) ast_Add (Name ''x''))).
      x \<notin> dom allowed_funcs)
   \<and> (\<exists>err. SafeEval_eval True (BinOp (Num (PInt 1)) ast_Add (Name ''x'')) = Inl err)
   \<and> ''eval'' \<notin> dom allowed_funcs
   \<and> SafeEval_eval True (Call (Name ''eval'') [Num (PInt 1)] [])
        = Inl (ValueError ''Invalid function'')
   \<and> SafeEval_eval True (Name ''eval'') = Inl (ValueError ''Invalid variable'')"
proof -
  have a: "''x'' \<notin> dom allowed_funcs" "''eval'' \<notin> dom allowed_funcs"
    by (simp_all add: dom_allowed_funcs)
  then have b: "\<exists>x \<in> set (positional_names (BinOp (Num (PInt 1)) ast_Add (Name ''x''))).
      x \<notin> dom allowed_funcs"
    by simp
  show ?thesis
    using a b
      whitelist_enforcement [of "BinOp (Num (PInt 1)) ast_Add (Name ''x'')" True "''eval''"
        "[Num (PInt 1)]" "[]" "''eval''"]
    by blast
qed

subsection \<open>The degree mode\<close>

lemma radians_value:
  "PyFloat_AsDouble v = Inr x \<Longrightarrow> radians v = Inr (PFloat (x * (pi / 180)))"
  by (simp add: radians_def)

lemma degree_mode_converts:
  assumes "name \<in> {''sin'', ''cos'', ''tan''}" and "allowed_funcs name = Some f"
    and "comprehension (map (SafeEval_eval True) args) = Inr (v # rest)"
  shows "SafeEval_eval True (Call (Name name) args kws) =
     (case radians v of Inl err \<Rightarrow> Inl err | Inr r \<Rightarrow> py_call f (r # rest))"
  using assms by (auto simp add: degree_rule_def split: sum.splits)

lemma radian_mode_calls:
  assumes "allowed_funcs name = Some f"
    and "comprehension (map (SafeEval_eval False) args) = Inr vs"
  shows "SafeEval_eval False (Call (Name name) args kws) = py_call f vs"
  using assms by (simp add: degree_rule_def)

lemma other_functions_mode_independent:
  assumes "name \<notin> {''sin'', ''cos'', ''tan''}"
    and "map (SafeEval_eval True) args = map (SafeEval_eval False) args"
  shows "SafeEval_eval True (Call (Name name) args kws) =
         SafeEval_eval False (Call (Name name) args kws)"
proof -
  have dr: "degree_rule True name = degree_rule False name"
    using assms(1) by (auto simp add: degree_rule_def fun_eq_iff)
  show ?thesis unfolding SafeEval_eval.simps node.case assms(2) dr by (rule refl)
qed

lemma sin_90_degrees:
  "SafeEval_eval True (Call (Name ''sin'') [Num (PInt 90)] []) = Inr (PFloat 1)"
  by (simp add: allowed_funcs_simps degree_rule_def radians_def PyLong_AsDouble_small)

lemma sin_90_radians:
  "SafeEval_eval False (Call (Name ''sin'') [Num (PInt 90)] []) = Inr (PFloat (sin 90))"
  by (simp add: allowed_funcs_simps degree_rule_def PyLong_AsDouble_small)

text \<open>
  Claim C3. In degree mode a call of \<^verbatim>\<open>sin\<close>, \<^verbatim>\<open>cos\<close> or \<^verbatim>\<open>tan\<close> replaces its first
  argument by \<^verbatim>\<open>radians\<close> of it, the value times \<open>\<pi> / 180\<close>, before the function is
  called on the arguments; with the mode off every function is called on the values of the
  arguments as they are. A call of any other name gives the same result in both modes,
  provided its arguments do. \<^verbatim>\<open>sin(90)\<close> is 1 in degree mode and the sine of 90 radians
  with the mode off.
\<close>

theorem degree_mode_rule:
  "(name \<in> {''sin'', ''cos'', ''tan''} \<and> allowed_funcs name = Some f \<and>
      comprehension (map (SafeEval_eval True) args) = Inr (v # rest) \<longrightarrow>
      SafeEval_eval True (Call (Name name) args kws) =
        (case radians v of Inl err \<Rightarrow> Inl err | Inr r \<Rightarrow> py_call f (r # rest)))
   \<and> (PyFloat_AsDouble v = Inr x \<longrightarrow> radians v = Inr (PFloat (x * (pi / 180))))
   \<and> (allowed_funcs name = Some f \<and>
      comprehension (map (SafeEval_eval False) args) = Inr vs \<longrightarrow>
      SafeEval_eval False (Call (Name name) args kws) = py_call f vs)
   \<and> (name \<notin> {''sin'', ''cos'', ''tan''} \<and>
      map (SafeEval_eval True) args = map (SafeEval_eval False) args \<longrightarrow>
      SafeEval_eval True (Call (Name name) args kws) =
      SafeEval_eval False (Call (Name name) args kws))
   \<and> SafeEval_eval True (Call (Name ''sin'') [Num (PInt 90)] []) = Inr (PFloat 1)
   \<and> SafeEval_eval False (Call (Name ''sin'') [Num (PInt 90)] []) = Inr (PFloat (sin 90))"
  using degree_mode_converts [of name f args v rest kws] radians_value [of v x]
    radian_mode_calls [of name f args vs kws]
    other_functions_mode_independent [of name args kws] sin_90_degrees sin_90_radians
  by blast

theorem degree_mode_rule_witness:
  "''cos'' \<in> {''sin'', ''cos'', ''tan''} \<and> allowed_funcs ''cos'' = Some (PFunc Math_cos) \<and>
   comprehension (map (SafeEval_eval True) [Num (PInt 180)]) = Inr [PInt 180] \<and>
   PyFloat_AsDouble (PInt 180) = Inr 180 \<and>
   radians (PInt 180) = Inr (PFloat (180 * (pi / 180))) \<and>
   SafeEval_eval True (Call (Name ''cos'') [Num (PInt 180)] []) = Inr (PFloat (- 1)) \<and>
   comprehension (map (SafeEval_eval False) [Num (PInt 180)]) = Inr [PInt 180] \<and>
   SafeEval_eval False (Call (Name ''cos'') [Num (PInt 180)] []) = Inr (PFloat (cos 180)) \<and>
   ''exp'' \<notin> {''sin'', ''cos'', ''tan''} \<and>
   map (SafeEval_eval True) [Num (PInt 0)] = map (SafeEval_eval False) [Num (PInt 0)] \<and>
   SafeEval_eval True (Call (Name ''exp'') [Num (PInt 0)] []) =
   SafeEval_eval False (Call (Name ''exp'') [Num (PInt 0)] [])"
  using degree_mode_rule [of "''cos''" "PFunc Math_cos" "[Num (PInt 180)]" "PInt 180" "[]" "[]"
      180 "[PInt 180]"]
    degree_mode_rule [of "''exp''" "PFunc Math_exp" "[Num (PInt 0)]" "PInt 0" "[]" "[]"
      0 "[PInt 0]"]
  by (simp add: allowed_funcs_simps PyLong_AsDouble_small)


end
